theory Spec2Isabelle
  imports Complex_Main
begin

section \<open>Data model\<close>

text \<open>
  The program \<^verbatim>\<open>fit_data.py\<close> is a straight pipeline
  \<^verbatim>\<open>get_user_input\<close>, \<^verbatim>\<open>read_data\<close>, \<^verbatim>\<open>fit_data\<close>,
  \<^verbatim>\<open>save_fit_params\<close>, \<^verbatim>\<open>save_predictions\<close>, \<^verbatim>\<open>plot_data\<close>.
  Its tables are pandas data frames; here a table is the list of its rows in index order.
  Python floats are modelled as real numbers: the rounding, the infinities and the NaN values
  of float arithmetic are outside the model.
  A time stamp is the integer count of nanoseconds that a \<^verbatim>\<open>datetime64[ns]\<close> holds.
  A string is a list of characters, a character being a code point below 256; text with
  other code points is outside the model.
\<close>

type_synonym timestamp = int

text \<open>A cell as the spreadsheet reader delivers it; \<open>NaN\<close> is the missing value.\<close>

datatype cell = NaN | Number real | Text string | DateTime timestamp | Boolean bool

text \<open>
  A row of the table right after \<^verbatim>\<open>pd.read_excel(..., header=None, names=[...])\<close>:
  three positional columns, not yet typed.
\<close>

record raw_row =
  raw_time_stamp :: cell
  raw_temperature_c :: cell
  raw_temperature_f :: cell

text \<open>
  A row of the cleaned table returned by \<^verbatim>\<open>read_data\<close>: the time stamp is a
  datetime, the Celsius column is \<^verbatim>\<open>float64\<close>, the third column is left as read.
\<close>

record row =
  time_stamp :: timestamp
  temperature_c :: real
  temperature_f :: cell

text \<open>A row after \<^verbatim>\<open>fit_data\<close> has added the two prediction columns.\<close>

record prow = row +
  prediction_c :: real
  prediction_f :: real

text \<open>
  Exceptions are values. \<open>LibraryError r\<close> stands for an exception raised inside the
  library routine named \<open>r\<close>; \<open>NotImplementedError\<close> is raised only by the
  \<^verbatim>\<open>else\<close> branch of \<^verbatim>\<open>fit_data\<close>.
\<close>

datatype error =
  EOFError | FileNotFoundError | NotImplementedError | ValueError | LibraryError string

text \<open>
  A file is either delimited text, held as its records (the header first, each record the
  list of its fields), or an opaque byte string (the workbook, the image). The file system
  maps a path to the file stored there.
\<close>

datatype file_content = Csv "string list list" | Binary string

type_synonym filesystem = "string \<rightharpoonup> file_content"

text \<open>What the console shows, one event per prompt or message.\<close>

datatype console_event = PromptPath | PromptOption | InvalidOption string

text \<open>
  The routines of pandas, numpy, matplotlib and \<^verbatim>\<open>os.path\<close> that the program calls
  are not part of the repository. They are parameters of the model, collected in one record;
  \<open>None\<close> means the routine raised.
  \<^item> \<open>parse_excel\<close>: the table \<^verbatim>\<open>pd.read_excel\<close> reads from a file's content;
  \<^item> \<open>to_numeric\<close>: \<^verbatim>\<open>pd.to_numeric(..., errors='coerce')\<close> on one cell, \<open>None\<close>
    for a cell it turns into a null;
  \<^item> \<open>to_datetime\<close>, \<open>astype_float\<close>: the conversions of one cell by
    \<^verbatim>\<open>pd.to_datetime\<close> and \<^verbatim>\<open>astype('float64')\<close>;
  \<^item> \<open>date2num\<close>: \<^verbatim>\<open>matplotlib.dates.date2num\<close>, the day count of a time stamp;
  \<^item> \<open>polyfit\<close>: \<^verbatim>\<open>np.polyfit x y deg\<close>;
  \<^item> \<open>dirname\<close>, \<open>path_join\<close>: \<^verbatim>\<open>os.path.dirname\<close>, \<^verbatim>\<open>os.path.join\<close>;
  \<^item> \<open>float_repr\<close>, \<open>timestamp_str\<close>, \<open>cell_str\<close>: how \<^verbatim>\<open>to_csv\<close> prints a value;
  \<^item> \<open>render_plot\<close>: the image that \<^verbatim>\<open>plot_data\<close> draws and \<^verbatim>\<open>plt.savefig\<close> encodes.
\<close>

record library =
  parse_excel :: "file_content \<Rightarrow> raw_row list option"
  to_numeric :: "cell \<Rightarrow> real option"
  to_datetime :: "cell \<Rightarrow> timestamp option"
  astype_float :: "cell \<Rightarrow> real option"
  date2num :: "timestamp \<Rightarrow> real"
  polyfit :: "real list \<Rightarrow> real list \<Rightarrow> nat \<Rightarrow> real list option"
  dirname :: "string \<Rightarrow> string"
  path_join :: "string \<Rightarrow> string \<Rightarrow> string"
  float_repr :: "real \<Rightarrow> string"
  timestamp_str :: "timestamp \<Rightarrow> string"
  cell_str :: "cell \<Rightarrow> string"
  render_plot :: "prow list \<Rightarrow> string \<Rightarrow> file_content option"

section \<open>The program\<close>

subsection \<open>\<^verbatim>\<open>celsius_to_fahrenheit\<close>\<close>

definition celsius_to_fahrenheit :: "real \<Rightarrow> real" where
  "celsius_to_fahrenheit T = T * 9 / 5 + 32"

subsection \<open>\<^verbatim>\<open>get_user_input\<close>\<close>

text \<open>
  \<^verbatim>\<open>str.lower\<close>, character by character. Among the code points below 256 the capitals
  are \<open>A\<close> to \<open>Z\<close> (65 to 90) and the accented capitals 192 to 222 without the
  multiplication sign 215; the small letter of each lies 32 further on. Every other character
  is left as it is.
\<close>

definition lower_char :: "char \<Rightarrow> char" where
  "lower_char c =
     (let n = (of_char c :: nat) in
      if (65 \<le> n \<and> n \<le> 90) \<or> (192 \<le> n \<and> n \<le> 222 \<and> n \<noteq> 215) then char_of (n + 32)
      else c)"

definition lower :: "string \<Rightarrow> string" where
  "lower s = map lower_char s"

text \<open>
  The \<^verbatim>\<open>while True\<close> loop. Standard input is the list of the lines still to be read;
  \<^verbatim>\<open>input\<close> on an exhausted input raises \<^verbatim>\<open>EOFError\<close>. The result comes with the
  console events, the prompt of each \<^verbatim>\<open>input\<close> call included.
\<close>

fun fit_option_loop :: "string list \<Rightarrow> (error + string) \<times> console_event list" where
  "fit_option_loop [] = (Inl EOFError, [PromptOption])"
| "fit_option_loop (s # ss) =
     (let fit_option = lower s in
      if fit_option \<in> set [''linear'', ''quadratic''] then (Inr fit_option, [PromptOption])
      else (case fit_option_loop ss of
              (r, out) \<Rightarrow> (r, PromptOption # InvalidOption fit_option # out)))"

definition get_user_input :: "string list \<Rightarrow> (error + string \<times> string) \<times> console_event list" where
  "get_user_input stdin =
     (case stdin of
        [] \<Rightarrow> (Inl EOFError, [PromptPath])
      | file_path # rest \<Rightarrow>
          (case fit_option_loop rest of
             (Inl e, out) \<Rightarrow> (Inl e, PromptPath # out)
           | (Inr fit_option, out) \<Rightarrow> (Inr (file_path, fit_option), PromptPath # out)))"

subsection \<open>\<^verbatim>\<open>read_data\<close>\<close>

text \<open>\<^verbatim>\<open>dropna(how='any', axis=0)\<close>: a row with a missing value in any column goes.\<close>

definition dropna :: "raw_row list \<Rightarrow> raw_row list" where
  "dropna data =
     filter (\<lambda>r. raw_time_stamp r \<noteq> NaN \<and> raw_temperature_c r \<noteq> NaN \<and> raw_temperature_f r \<noteq> NaN)
       data"

text \<open>
  A conversion of a whole column raises as soon as one of its cells does not convert.
\<close>

fun convert_column :: "('a \<Rightarrow> 'b option) \<Rightarrow> 'a list \<Rightarrow> 'b list option" where
  "convert_column f [] = Some []"
| "convert_column f (x # xs) =
     (case f x of
        None \<Rightarrow> None
      | Some y \<Rightarrow> (case convert_column f xs of None \<Rightarrow> None | Some ys \<Rightarrow> Some (y # ys)))"

fun typed_rows :: "timestamp list \<Rightarrow> real list \<Rightarrow> raw_row list \<Rightarrow> row list" where
  "typed_rows (t # ts) (c # cs) (r # rs) =
     \<lparr>time_stamp = t, temperature_c = c, temperature_f = raw_temperature_f r\<rparr> # typed_rows ts cs rs"
| "typed_rows _ _ _ = []"

text \<open>
  The console echo of the table (\<^verbatim>\<open>print\<close>) is left out here and in the functions below.
\<close>

definition read_data :: "library \<Rightarrow> filesystem \<Rightarrow> string \<Rightarrow> error + row list" where
  "read_data L fs file_path =
     (case fs file_path of
        None \<Rightarrow> Inl FileNotFoundError
      | Some f \<Rightarrow>
          (case parse_excel L f of
             None \<Rightarrow> Inl (LibraryError ''read_excel'')
           | Some data0 \<Rightarrow>
               (let data1 = dropna data0;
                    data2 = filter (\<lambda>r. to_numeric L (raw_temperature_c r) \<noteq> None) data1
                in case convert_column (to_datetime L) (map raw_time_stamp data2) of
                     None \<Rightarrow> Inl (LibraryError ''to_datetime'')
                   | Some stamps \<Rightarrow>
                       (case convert_column (astype_float L) (map raw_temperature_c data2) of
                          None \<Rightarrow> Inl (LibraryError ''astype'')
                        | Some celsius \<Rightarrow> Inr (typed_rows stamps celsius data2)))))"

subsection \<open>\<^verbatim>\<open>fit_data\<close>\<close>

text \<open>
  \<^verbatim>\<open>np.polyval p x\<close>: Horner's scheme over the coefficients, the highest power first.
\<close>

definition polyval :: "real list \<Rightarrow> real \<Rightarrow> real" where
  "polyval p x = foldl (\<lambda>y pv. y * x + pv) 0 p"

fun add_predictions :: "row list \<Rightarrow> real list \<Rightarrow> real list \<Rightarrow> prow list" where
  "add_predictions (r # rs) (c # cs) (f # fs) =
     \<lparr>time_stamp = time_stamp r, temperature_c = temperature_c r, temperature_f = temperature_f r,
      prediction_c = c, prediction_f = f\<rparr> # add_predictions rs cs fs"
| "add_predictions _ _ _ = []"

text \<open>
  The fit parameter set is the one-row frame \<^verbatim>\<open>pd.DataFrame([params], columns=params_labels)\<close>:
  the list of its columns, each a label with its value. The constructor raises
  \<^verbatim>\<open>ValueError\<close> when the number of labels is not the number of values.
\<close>

type_synonym params_frame = "(string \<times> real) list"

definition fit_data :: "library \<Rightarrow> row list \<Rightarrow> string \<Rightarrow> error + prow list \<times> params_frame" where
  "fit_data L data fit_option =
     (let x = map time_stamp data;
          y = map temperature_c data;
          x_num = map (date2num L) x;
          fitted =
            (if fit_option = ''linear'' then
               (case polyfit L x_num y 1 of
                  None \<Rightarrow> Inl (LibraryError ''polyfit'')
                | Some params \<Rightarrow> Inr (params, [''a'', ''b'']))
             else if fit_option = ''quadratic'' then
               (case polyfit L x_num y 2 of
                  None \<Rightarrow> Inl (LibraryError ''polyfit'')
                | Some params \<Rightarrow> Inr (params, [''a'', ''b'', ''c'']))
             else Inl NotImplementedError)
      in case fitted of
           Inl e \<Rightarrow> Inl e
         | Inr (params, params_labels) \<Rightarrow>
             (let pred_c = map (polyval params) x_num;
                  pred_f = map celsius_to_fahrenheit pred_c
              in if length params \<noteq> length params_labels then Inl ValueError
                 else Inr (add_predictions data pred_c pred_f, zip params_labels params)))"

subsection \<open>\<^verbatim>\<open>save_fit_params\<close>, \<^verbatim>\<open>save_predictions\<close>, \<^verbatim>\<open>plot_data\<close>\<close>

text \<open>
  \<^verbatim>\<open>to_csv(save_path, index=False)\<close> stores the column labels as the header record and one
  record per row; whatever the path held before is replaced.
\<close>

definition save_fit_params ::
  "library \<Rightarrow> params_frame \<Rightarrow> string \<Rightarrow> string \<Rightarrow> filesystem \<Rightarrow> filesystem" where
  "save_fit_params L params fit_option data_folder_path fs =
     (let save_path = path_join L data_folder_path (fit_option @ ''_fit_parameters.csv'')
      in fs(save_path \<mapsto> Csv [map fst params, map (\<lambda>p. float_repr L (snd p)) params]))"

text \<open>
  The column labels of the augmented table: the three names given to \<^verbatim>\<open>read_excel\<close> and
  the two columns assigned in \<^verbatim>\<open>fit_data\<close>. The degree sign is the character U+00B0.
\<close>

definition prediction_columns :: "string list" where
  "prediction_columns =
     [''Time-Stamp'', ''Temperature/'' @ [CHR 0xB0] @ ''C'', ''Temperature/'' @ [CHR 0xB0] @ ''F'',
      ''Prediction/'' @ [CHR 0xB0] @ ''C'', ''Prediction/'' @ [CHR 0xB0] @ ''F'']"

definition csv_record :: "library \<Rightarrow> prow \<Rightarrow> string list" where
  "csv_record L r =
     [timestamp_str L (time_stamp r), float_repr L (temperature_c r), cell_str L (temperature_f r),
      float_repr L (prediction_c r), float_repr L (prediction_f r)]"

definition save_predictions ::
  "library \<Rightarrow> prow list \<Rightarrow> string \<Rightarrow> string \<Rightarrow> filesystem \<Rightarrow> filesystem" where
  "save_predictions L data fit_option data_folder_path fs =
     (let save_path = path_join L data_folder_path (fit_option @ ''_predictions.csv'')
      in fs(save_path \<mapsto> Csv (prediction_columns # map (csv_record L) data)))"

definition plot_data ::
  "library \<Rightarrow> prow list \<Rightarrow> string \<Rightarrow> string \<Rightarrow> filesystem \<Rightarrow> error + filesystem" where
  "plot_data L data fit_option data_folder_path fs =
     (case render_plot L data fit_option of
        None \<Rightarrow> Inl (LibraryError ''savefig'')
      | Some png \<Rightarrow>
          (let save_path = path_join L data_folder_path (fit_option @ ''_fit.png'')
           in Inr (fs(save_path \<mapsto> png))))"

subsection \<open>\<^verbatim>\<open>main\<close>\<close>

text \<open>
  A run takes the lines of standard input and the file system, and leaves the file system as
  it is when the run ends, with the exception that ended it, if any.
\<close>

definition main :: "library \<Rightarrow> string list \<Rightarrow> filesystem \<Rightarrow> filesystem \<times> error option" where
  "main L stdin fs =
     (case fst (get_user_input stdin) of
        Inl e \<Rightarrow> (fs, Some e)
      | Inr (data_file_path, fit_option) \<Rightarrow>
          (let data_folder_path = dirname L data_file_path in
           case read_data L fs data_file_path of
             Inl e \<Rightarrow> (fs, Some e)
           | Inr data0 \<Rightarrow>
               (case fit_data L data0 fit_option of
                  Inl e \<Rightarrow> (fs, Some e)
                | Inr (data, params) \<Rightarrow>
                    (let fs1 = save_fit_params L params fit_option data_folder_path fs;
                         fs2 = save_predictions L data fit_option data_folder_path fs1
                     in case plot_data L data fit_option data_folder_path fs2 of
                          Inl e \<Rightarrow> (fs2, Some e)
                        | Inr fs3 \<Rightarrow> (fs3, None)))))"

section \<open>Notions of the specification\<close>

subsection \<open>Input Collector\<close>

text \<open>
  Case-insensitive matching, said without the program's lowering: the table pairs each small
  letter of the alphabet with its capital; two characters are the same up to case when they
  are equal or a pair of the table, either way round; two strings match when they have the
  same length and are the same up to case at every position. An entered string is a valid
  fit mode when it matches \<^verbatim>\<open>linear\<close> or \<^verbatim>\<open>quadratic\<close> in this sense.
\<close>

definition letter_cases :: "(char \<times> char) list" where
  "letter_cases = zip ''abcdefghijklmnopqrstuvwxyz'' ''ABCDEFGHIJKLMNOPQRSTUVWXYZ''"

definition same_ignoring_case :: "char \<Rightarrow> char \<Rightarrow> bool" where
  "same_ignoring_case c d =
     (c = d \<or> (c, d) \<in> set letter_cases \<or> (d, c) \<in> set letter_cases)"

definition equal_ignoring_case :: "string \<Rightarrow> string \<Rightarrow> bool" where
  "equal_ignoring_case s t = list_all2 same_ignoring_case s t"

definition valid_option :: "string \<Rightarrow> bool" where
  "valid_option s = (equal_ignoring_case s ''linear'' \<or> equal_ignoring_case s ''quadratic'')"

text \<open>What the console shows while the entries \<open>ss\<close> are turned down, one after the other.\<close>

definition rejected_events :: "string list \<Rightarrow> console_event list" where
  "rejected_events ss = concat (map (\<lambda>s. [PromptOption, InvalidOption (lower s)]) ss)"

subsection \<open>Data Loader\<close>

text \<open>
  A row has a missing value when one of its three cells is missing. It is valid when none is
  missing and its Celsius cell is coercible to a number. \<open>typed_as L r d\<close> says that the
  cleaned row \<open>d\<close> is the raw row \<open>r\<close> with its time stamp parsed and its Celsius cell
  turned into a float.
\<close>

definition has_missing :: "raw_row \<Rightarrow> bool" where
  "has_missing r =
     (raw_time_stamp r = NaN \<or> raw_temperature_c r = NaN \<or> raw_temperature_f r = NaN)"

definition is_valid_row :: "library \<Rightarrow> raw_row \<Rightarrow> bool" where
  "is_valid_row L r = (\<not> has_missing r \<and> to_numeric L (raw_temperature_c r) \<noteq> None)"

definition typed_as :: "library \<Rightarrow> raw_row \<Rightarrow> row \<Rightarrow> bool" where
  "typed_as L r d =
     (to_datetime L (raw_time_stamp r) = Some (time_stamp d) \<and>
      astype_float L (raw_temperature_c r) = Some (temperature_c d) \<and>
      temperature_f d = raw_temperature_f r)"

subsection \<open>Regression Fitter\<close>

text \<open>
  The degree and the coefficient labels of a fit mode, the numeric time values of a table,
  and the sum of squared residuals that an ordinary least-squares fit of a degree minimises
  over all coefficient lists of that degree.
\<close>

definition fit_degree :: "string \<Rightarrow> nat" where
  "fit_degree fit_option = (if fit_option = ''linear'' then 1 else 2)"

definition fit_labels :: "string \<Rightarrow> string list" where
  "fit_labels fit_option =
     (if fit_option = ''linear'' then [''a'', ''b''] else [''a'', ''b'', ''c''])"

definition x_num_of :: "library \<Rightarrow> row list \<Rightarrow> real list" where
  "x_num_of L data = map (\<lambda>r. date2num L (time_stamp r)) data"

definition sum_squared_residuals :: "real list \<Rightarrow> real list \<Rightarrow> real list \<Rightarrow> real" where
  "sum_squared_residuals p xs ys =
     sum_list (map (\<lambda>(x, y). (polyval p x - y)\<^sup>2) (zip xs ys))"

definition least_squares_fit :: "nat \<Rightarrow> real list \<Rightarrow> real list \<Rightarrow> real list \<Rightarrow> bool" where
  "least_squares_fit deg xs ys p =
     (length p = deg + 1 \<and>
      (\<forall>q. length q = deg + 1 \<longrightarrow>
         sum_squared_residuals p xs ys \<le> sum_squared_residuals q xs ys))"

text \<open>The squared distance between the Celsius predictions and the Celsius column.\<close>

definition table_residuals :: "prow list \<Rightarrow> real" where
  "table_residuals data = sum_list (map (\<lambda>r. (prediction_c r - temperature_c r)\<^sup>2) data)"

subsection \<open>Persistence Writer\<close>

text \<open>The three paths a run with input \<open>file_path\<close> and mode \<open>fit_option\<close> writes to.\<close>

definition params_path :: "library \<Rightarrow> string \<Rightarrow> string \<Rightarrow> string" where
  "params_path L file_path fit_option =
     path_join L (dirname L file_path) (fit_option @ ''_fit_parameters.csv'')"

definition predictions_path :: "library \<Rightarrow> string \<Rightarrow> string \<Rightarrow> string" where
  "predictions_path L file_path fit_option =
     path_join L (dirname L file_path) (fit_option @ ''_predictions.csv'')"

definition plot_path :: "library \<Rightarrow> string \<Rightarrow> string \<Rightarrow> string" where
  "plot_path L file_path fit_option =
     path_join L (dirname L file_path) (fit_option @ ''_fit.png'')"

text \<open>
  Two runs are runs on the same input file only if the first does not write over it: the
  path entered is none of the three paths written.
\<close>

definition input_untouched :: "library \<Rightarrow> string list \<Rightarrow> bool" where
  "input_untouched L stdin =
     (case fst (get_user_input stdin) of
        Inl e \<Rightarrow> True
      | Inr (file_path, fit_option) \<Rightarrow>
          file_path \<noteq> params_path L file_path fit_option \<and>
          file_path \<noteq> predictions_path L file_path fit_option \<and>
          file_path \<noteq> plot_path L file_path fit_option)"

text \<open>
  Modelled from the spec: the repository has no code that reads a parameter file back. This is
  the reader the round-trip property of the specification speaks of: the file is a header
  record of labels and one record of values; each value is parsed by \<open>parse_float\<close> and
  paired with its label, in the order of the file.
\<close>

definition read_fit_params ::
  "(string \<Rightarrow> real option) \<Rightarrow> file_content \<Rightarrow> params_frame option" where
  "read_fit_params parse_float f =
     (case f of
        Csv [labels, texts] \<Rightarrow>
          (case convert_column parse_float texts of
             None \<Rightarrow> None
           | Some vs \<Rightarrow> if length vs = length labels then Some (zip labels vs) else None)
      | _ \<Rightarrow> None)"

section \<open>A sample run\<close>

text \<open>
  A workbook of five rows, two of them to be dropped, and an instance of the library that is
  defined on what this workbook needs: three measurements one day apart, 10, 12 and 17
  degrees, whose least-squares line is \<open>3.5 x + 9.5\<close> with the predictions 9.5, 13 and 16.5.
  It serves to evaluate the model.
\<close>

definition sample_table :: "raw_row list" where
  "sample_table =
     [\<lparr>raw_time_stamp = DateTime 0, raw_temperature_c = Number 10, raw_temperature_f = Number 50\<rparr>,
      \<lparr>raw_time_stamp = DateTime 43200000000000, raw_temperature_c = NaN,
       raw_temperature_f = Number 52\<rparr>,
      \<lparr>raw_time_stamp = DateTime 86400000000000, raw_temperature_c = Number 12,
       raw_temperature_f = Number (268 / 5)\<rparr>,
      \<lparr>raw_time_stamp = DateTime 129600000000000, raw_temperature_c = Text ''N/A'',
       raw_temperature_f = Text ''N/A''\<rparr>,
      \<lparr>raw_time_stamp = DateTime 172800000000000, raw_temperature_c = Number 17,
       raw_temperature_f = Number (313 / 5)\<rparr>]"

definition sample_data :: "row list" where
  "sample_data =
     [\<lparr>time_stamp = 0, temperature_c = 10, temperature_f = Number 50\<rparr>,
      \<lparr>time_stamp = 86400000000000, temperature_c = 12, temperature_f = Number (268 / 5)\<rparr>,
      \<lparr>time_stamp = 172800000000000, temperature_c = 17, temperature_f = Number (313 / 5)\<rparr>]"

definition sample_fitted :: "prow list" where
  "sample_fitted =
     [\<lparr>time_stamp = 0, temperature_c = 10, temperature_f = Number 50,
       prediction_c = 19 / 2, prediction_f = 491 / 10\<rparr>,
      \<lparr>time_stamp = 86400000000000, temperature_c = 12, temperature_f = Number (268 / 5),
       prediction_c = 13, prediction_f = 277 / 5\<rparr>,
      \<lparr>time_stamp = 172800000000000, temperature_c = 17, temperature_f = Number (313 / 5),
       prediction_c = 33 / 2, prediction_f = 617 / 10\<rparr>]"

definition sample_repr :: "real \<Rightarrow> string" where
  "sample_repr x =
     (if x = 7 / 2 then ''3.5'' else if x = 19 / 2 then ''9.5'' else if x = 10 then ''10.0''
      else if x = 12 then ''12.0'' else if x = 13 then ''13.0'' else if x = 33 / 2 then ''16.5''
      else if x = 17 then ''17.0'' else if x = 491 / 10 then ''49.1'' else if x = 50 then ''50.0''
      else if x = 268 / 5 then ''53.6'' else if x = 277 / 5 then ''55.4''
      else if x = 617 / 10 then ''61.7'' else if x = 313 / 5 then ''62.6'' else [])"

definition sample_parse_float :: "string \<Rightarrow> real option" where
  "sample_parse_float s =
     (if s = ''3.5'' then Some (7 / 2) else if s = ''9.5'' then Some (19 / 2)
      else if s = ''10.0'' then Some 10 else None)"

definition sample_library :: library where
  "sample_library =
     \<lparr>parse_excel = (\<lambda>f. if f = Binary ''workbook'' then Some sample_table else None),
      to_numeric = (\<lambda>c. case c of Number x \<Rightarrow> Some x | _ \<Rightarrow> None),
      to_datetime = (\<lambda>c. case c of DateTime t \<Rightarrow> Some t | _ \<Rightarrow> None),
      astype_float = (\<lambda>c. case c of Number x \<Rightarrow> Some x | _ \<Rightarrow> None),
      date2num = (\<lambda>t. real_of_int t / 86400000000000),
      polyfit = (\<lambda>xs ys deg.
         if xs = [0, 1, 2] \<and> ys = [10, 12, 17] \<and> deg = 1 then Some [7 / 2, 19 / 2]
         else if xs = [0, 1, 2] \<and> ys = [10, 12, 17] \<and> deg = 2 then Some [3 / 2, 1 / 2, 10]
         else None),
      dirname = (\<lambda>p. if p = ''data/temps.xlsx'' then ''data'' else []),
      path_join = (\<lambda>d n. d @ ''/'' @ n),
      float_repr = sample_repr,
      timestamp_str = (\<lambda>t.
         if t = 0 then ''1970-01-01'' else if t = 86400000000000 then ''1970-01-02''
         else if t = 172800000000000 then ''1970-01-03'' else []),
      cell_str = (\<lambda>c. case c of Number x \<Rightarrow> sample_repr x | _ \<Rightarrow> []),
      render_plot = (\<lambda>data fit_option. Some (Binary ''image''))\<rparr>"

definition sample_fs :: filesystem where
  "sample_fs = [''data/temps.xlsx'' \<mapsto> Binary ''workbook'']"

definition sample_stdin :: "string list" where
  "sample_stdin = [''data/temps.xlsx'', ''cubic'', ''Linear'']"

section \<open>Auxiliary facts\<close>

subsection \<open>The prompt loop\<close>

text \<open>
  The program's test, lowering and comparing, against matching as the specification has it:
  a character lowers to a small letter of the two words exactly when it is that letter or
  its capital.
\<close>

lemma of_char_lower_char:
  "(of_char (lower_char c) :: nat) =
     (if (65 \<le> (of_char c :: nat) \<and> (of_char c :: nat) \<le> 90) \<or>
         (192 \<le> (of_char c :: nat) \<and> (of_char c :: nat) \<le> 222 \<and> (of_char c :: nat) \<noteq> 215)
      then of_char c + 32 else of_char c)"
  by (auto simp: lower_char_def Let_def of_char_of)

lemma lower_char_eq_small:
  assumes "97 \<le> (of_char l :: nat)" and "(of_char l :: nat) \<le> 122"
  shows "(lower_char c = l) = (c = l \<or> (of_char c :: nat) + 32 = of_char l)"
proof -
  have "(lower_char c = l) = ((of_char (lower_char c) :: nat) = of_char l)"
    by (simp only: of_char_eq_iff)
  also have "\<dots> = ((of_char c :: nat) = of_char l \<or> (of_char c :: nat) + 32 = of_char l)"
    unfolding of_char_lower_char using assms by auto
  also have "\<dots> = (c = l \<or> (of_char c :: nat) + 32 = of_char l)"
    by (simp only: of_char_eq_iff)
  finally show ?thesis .
qed

lemma same_ignoring_case_lower:
  assumes "l \<in> set ''acdeilnqrtu''"
  shows "same_ignoring_case c l = (lower_char c = l)"
proof -
  have code: "(c = d) = ((of_char c :: nat) = of_char d)" for d
    by (simp only: of_char_eq_iff)
  from assms consider "l = CHR ''a''" | "l = CHR ''c''" | "l = CHR ''d''" | "l = CHR ''e''"
    | "l = CHR ''i''" | "l = CHR ''l''" | "l = CHR ''n''" | "l = CHR ''q''" | "l = CHR ''r''"
    | "l = CHR ''t''" | "l = CHR ''u''"
    by auto
  then show ?thesis
    by cases (auto simp: same_ignoring_case_def letter_cases_def lower_char_eq_small code)
qed

lemma lower_eq_ignoring_case:
  "set t \<subseteq> set ''acdeilnqrtu'' \<Longrightarrow> (lower s = t) = equal_ignoring_case s t"
proof (induction t arbitrary: s)
  case Nil
  then show ?case by (simp add: lower_def equal_ignoring_case_def)
next
  case (Cons l t)
  then have l: "l \<in> set ''acdeilnqrtu''" and t: "set t \<subseteq> set ''acdeilnqrtu''"
    by simp_all
  have IH: "(map lower_char s' = t) = list_all2 same_ignoring_case s' t" for s'
    using Cons.IH [OF t, of s'] by (simp add: lower_def equal_ignoring_case_def)
  show ?case
    by (cases s)
      (simp_all add: lower_def equal_ignoring_case_def IH same_ignoring_case_lower [OF l] conj_commute)
qed

lemma valid_option_iff: "valid_option s = (lower s = ''linear'' \<or> lower s = ''quadratic'')"
  by (simp add: valid_option_def lower_eq_ignoring_case)

lemma fit_option_loop_accept:
  "\<forall>t \<in> set pre. \<not> valid_option t \<Longrightarrow> valid_option s \<Longrightarrow>
   fit_option_loop (pre @ s # rest) = (Inr (lower s), rejected_events pre @ [PromptOption])"
  by (induction pre) (auto simp: valid_option_iff rejected_events_def Let_def)

lemma fit_option_loop_reject:
  "\<forall>t \<in> set ss. \<not> valid_option t \<Longrightarrow>
   fit_option_loop ss = (Inl EOFError, rejected_events ss @ [PromptOption])"
  by (induction ss) (auto simp: valid_option_iff rejected_events_def Let_def)

lemma fit_option_loop_Inr:
  "fst (fit_option_loop ss) = Inr m \<Longrightarrow>
   \<exists>pre s rest. ss = pre @ s # rest \<and> (\<forall>t \<in> set pre. \<not> valid_option t) \<and>
      valid_option s \<and> m = lower s"
proof (induction ss)
  case Nil
  then show ?case by simp
next
  case (Cons x xs)
  show ?case
  proof (cases "valid_option x")
    case True
    with Cons.prems have "m = lower x"
      by (auto simp: valid_option_iff Let_def)
    with True show ?thesis
      by (intro exI [of _ "[]"] exI [of _ x] exI [of _ xs]) simp
  next
    case False
    with Cons.prems have "fst (fit_option_loop xs) = Inr m"
      by (auto simp: valid_option_iff Let_def split: prod.splits)
    from Cons.IH [OF this] obtain pre s rest where
      "xs = pre @ s # rest" "\<forall>t \<in> set pre. \<not> valid_option t" "valid_option s" "m = lower s"
      by blast
    with False show ?thesis
      by (intro exI [of _ "x # pre"] exI [of _ s] exI [of _ rest]) simp
  qed
qed

lemma get_user_input_Inr:
  assumes "fst (get_user_input stdin) = Inr (file_path, m)"
  shows "\<exists>pre s rest. stdin = file_path # pre @ s # rest \<and>
           (\<forall>t \<in> set pre. \<not> valid_option t) \<and> valid_option s \<and> m = lower s"
proof (cases stdin)
  case Nil
  with assms show ?thesis by (simp add: get_user_input_def)
next
  case (Cons p rest)
  with assms have "p = file_path" "fst (fit_option_loop rest) = Inr m"
    by (auto simp: get_user_input_def split: prod.splits sum.splits)
  with Cons fit_option_loop_Inr [of rest m] show ?thesis by auto
qed

lemma get_user_input_mode:
  assumes "fst (get_user_input stdin) = Inr (file_path, m)"
  shows "m = ''linear'' \<or> m = ''quadratic''"
  using get_user_input_Inr [OF assms] by (auto simp: valid_option_iff)

subsection \<open>Cleaning\<close>

lemma convert_column_Some:
  "(convert_column f xs = Some ys) = (map f xs = map Some ys)"
proof (induction xs arbitrary: ys)
  case Nil
  then show ?case by auto
next
  case (Cons x xs)
  show ?case
  proof (cases ys)
    case Nil
    then show ?thesis by (simp split: option.splits)
  next
    case (Cons y ys')
    with Cons.IH [of ys'] show ?thesis
      by (auto split: option.splits)
  qed
qed

lemma convert_column_None:
  "(convert_column f xs = None) = (\<exists>x \<in> set xs. f x = None)"
  by (induction xs) (auto split: option.splits)

lemma typed_rows_nth:
  "length ts = length rs \<Longrightarrow> length cs = length rs \<Longrightarrow> i < length rs \<Longrightarrow>
   typed_rows ts cs rs ! i =
     \<lparr>time_stamp = ts ! i, temperature_c = cs ! i, temperature_f = raw_temperature_f (rs ! i)\<rparr>"
proof (induction ts cs rs arbitrary: i rule: typed_rows.induct)
  case (1 t ts c cs r rs)
  then show ?case by (cases i) auto
qed auto

lemma typed_rows_length:
  "length ts = length rs \<Longrightarrow> length cs = length rs \<Longrightarrow>
   length (typed_rows ts cs rs) = length rs"
  by (induction ts cs rs rule: typed_rows.induct) auto

lemma cleaning_filter:
  "filter (\<lambda>r. to_numeric L (raw_temperature_c r) \<noteq> None) (dropna table) =
   filter (is_valid_row L) table"
  by (simp add: dropna_def is_valid_row_def has_missing_def conj_commute cong: filter_cong)

lemma typed_rows_all2:
  assumes "map f (map raw_time_stamp rs) = map Some ts"
    and "map g (map raw_temperature_c rs) = map Some cs"
  shows "list_all2
      (\<lambda>r d. f (raw_time_stamp r) = Some (time_stamp d) \<and>
         g (raw_temperature_c r) = Some (temperature_c d) \<and>
         temperature_f d = raw_temperature_f r)
      rs (typed_rows ts cs rs)"
proof -
  have lt: "length ts = length rs" and lc: "length cs = length rs"
    using assms by (metis length_map)+
  have t: "f (raw_time_stamp (rs ! i)) = Some (ts ! i)" if "i < length rs" for i
    using that assms(1) lt by (metis length_map nth_map)
  have c: "g (raw_temperature_c (rs ! i)) = Some (cs ! i)" if "i < length rs" for i
    using that assms(2) lc by (metis length_map nth_map)
  show ?thesis
    by (simp add: list_all2_conv_all_nth typed_rows_length lt lc typed_rows_nth t c)
qed

lemma read_data_eq:
  assumes "fs file_path = Some f" and "parse_excel L f = Some table"
  shows "read_data L fs file_path =
     (let kept = filter (is_valid_row L) table in
      case convert_column (to_datetime L) (map raw_time_stamp kept) of
        None \<Rightarrow> Inl (LibraryError ''to_datetime'')
      | Some stamps \<Rightarrow>
          (case convert_column (astype_float L) (map raw_temperature_c kept) of
             None \<Rightarrow> Inl (LibraryError ''astype'')
           | Some celsius \<Rightarrow> Inr (typed_rows stamps celsius kept)))"
  using assms unfolding read_data_def Let_def cleaning_filter by simp

lemma read_data_cong:
  "fs1 file_path = fs2 file_path \<Longrightarrow> read_data L fs1 file_path = read_data L fs2 file_path"
  by (simp add: read_data_def)

subsection \<open>Fitting\<close>

lemma add_predictions_length:
  "length cs = length rs \<Longrightarrow> length fs = length rs \<Longrightarrow>
   length (add_predictions rs cs fs) = length rs"
  by (induction rs cs fs rule: add_predictions.induct) auto

lemma add_predictions_truncate:
  "length cs = length rs \<Longrightarrow> length fs = length rs \<Longrightarrow>
   map row.truncate (add_predictions rs cs fs) = rs"
  by (induction rs cs fs rule: add_predictions.induct) (auto simp: row.truncate_def)

lemma add_predictions_c:
  "length cs = length rs \<Longrightarrow> length fs = length rs \<Longrightarrow>
   map prediction_c (add_predictions rs cs fs) = cs"
  by (induction rs cs fs rule: add_predictions.induct) auto

lemma add_predictions_f:
  "length cs = length rs \<Longrightarrow> length fs = length rs \<Longrightarrow>
   map prediction_f (add_predictions rs cs fs) = fs"
  by (induction rs cs fs rule: add_predictions.induct) auto

lemma fit_data_supported:
  assumes "fit_option = ''linear'' \<or> fit_option = ''quadratic''"
  shows "fit_data L data fit_option =
     (case polyfit L (x_num_of L data) (map temperature_c data) (fit_degree fit_option) of
        None \<Rightarrow> Inl (LibraryError ''polyfit'')
      | Some coeffs \<Rightarrow>
          if length coeffs \<noteq> fit_degree fit_option + 1 then Inl ValueError
          else Inr (add_predictions data (map (polyval coeffs) (x_num_of L data))
                      (map celsius_to_fahrenheit (map (polyval coeffs) (x_num_of L data))),
                    zip (fit_labels fit_option) coeffs))"
  using assms
  by (auto simp: fit_data_def fit_degree_def fit_labels_def x_num_of_def Let_def comp_def
      split: option.splits)

lemma fit_data_unsupported:
  assumes "fit_option \<noteq> ''linear''" and "fit_option \<noteq> ''quadratic''"
  shows "fit_data L data fit_option = Inl NotImplementedError"
  using assms by (simp add: fit_data_def Let_def)

lemma fit_data_Inr:
  assumes "fit_data L data fit_option = Inr (data', params)"
  shows "\<exists>coeffs. (fit_option = ''linear'' \<or> fit_option = ''quadratic'') \<and>
           polyfit L (x_num_of L data) (map temperature_c data) (fit_degree fit_option) =
             Some coeffs \<and>
           length coeffs = fit_degree fit_option + 1 \<and>
           data' = add_predictions data (map (polyval coeffs) (x_num_of L data))
                      (map celsius_to_fahrenheit (map (polyval coeffs) (x_num_of L data))) \<and>
           params = zip (fit_labels fit_option) coeffs"
proof (cases "fit_option = ''linear'' \<or> fit_option = ''quadratic''")
  case True
  with assms show ?thesis
    unfolding fit_data_supported [OF True]
    by (auto split: option.splits if_splits)
next
  case False
  with assms show ?thesis
    by (simp add: fit_data_unsupported)
qed

lemma fit_data_length:
  assumes "fit_data L data fit_option = Inr (data', params)"
  shows "length data' = length data"
  using fit_data_Inr [OF assms] by (auto simp: x_num_of_def add_predictions_length)

lemma add_predictions_map:
  "add_predictions rs (map g rs) (map h rs) =
     map (\<lambda>r. \<lparr>time_stamp = time_stamp r, temperature_c = temperature_c r,
                temperature_f = temperature_f r, prediction_c = g r, prediction_f = h r\<rparr>) rs"
  by (induction rs) simp_all

lemma fit_data_rows:
  assumes "fit_data L data fit_option = Inr (data', params)"
  shows "\<exists>coeffs.
           polyfit L (x_num_of L data) (map temperature_c data) (fit_degree fit_option) =
             Some coeffs \<and>
           length coeffs = fit_degree fit_option + 1 \<and>
           params = zip (fit_labels fit_option) coeffs \<and>
           data' =
             map (\<lambda>r. \<lparr>time_stamp = time_stamp r, temperature_c = temperature_c r,
                        temperature_f = temperature_f r,
                        prediction_c = polyval coeffs (date2num L (time_stamp r)),
                        prediction_f =
                          celsius_to_fahrenheit (polyval coeffs (date2num L (time_stamp r)))\<rparr>)
               data"
proof -
  from fit_data_Inr [OF assms] obtain coeffs where
    fit: "polyfit L (x_num_of L data) (map temperature_c data) (fit_degree fit_option) =
            Some coeffs"
    and len: "length coeffs = fit_degree fit_option + 1"
    and d: "data' = add_predictions data (map (polyval coeffs) (x_num_of L data))
              (map celsius_to_fahrenheit (map (polyval coeffs) (x_num_of L data)))"
    and p: "params = zip (fit_labels fit_option) coeffs"
    by blast
  have "data' =
      add_predictions data (map (\<lambda>r. polyval coeffs (date2num L (time_stamp r))) data)
        (map (\<lambda>r. celsius_to_fahrenheit (polyval coeffs (date2num L (time_stamp r)))) data)"
    by (simp add: d x_num_of_def comp_def)
  then show ?thesis
    using fit len p by (simp only: add_predictions_map) blast
qed

lemma polyval_linear: "polyval [a, b] x = a * x + b"
  by (simp add: polyval_def)

lemma polyval_quadratic: "polyval [a, b, c] x = a * x\<^sup>2 + b * x + c"
  by (simp add: polyval_def power2_eq_square algebra_simps)

lemma length_2: "length xs = Suc (Suc 0) \<Longrightarrow> \<exists>a b. xs = [a, b]"
  by (cases xs; cases "tl xs"; auto)

lemma length_3: "length xs = Suc (Suc (Suc 0)) \<Longrightarrow> \<exists>a b c. xs = [a, b, c]"
  by (cases xs; cases "tl xs"; cases "tl (tl xs)"; auto)

lemma sum_squared_residuals_nonneg: "0 \<le> sum_squared_residuals p xs ys"
  unfolding sum_squared_residuals_def
  by (rule sum_list_nonneg) auto

lemma table_residuals_fit:
  "table_residuals (add_predictions data (map (polyval coeffs) (x_num_of L data))
       (map celsius_to_fahrenheit (map (polyval coeffs) (x_num_of L data)))) =
   sum_squared_residuals coeffs (x_num_of L data) (map temperature_c data)"
  by (induction data) (simp_all add: table_residuals_def sum_squared_residuals_def x_num_of_def)

subsection \<open>The whole run\<close>

text \<open>
  Once the input is read and the fit has returned, the run writes the parameter file and the
  prediction file, whatever the number of rows; only the plot can still fail.
\<close>

lemma main_run:
  assumes "fst (get_user_input stdin) = Inr (file_path, fit_option)"
    and "read_data L fs file_path = Inr data0"
    and "fit_data L data0 fit_option = Inr (data, params)"
  shows "main L stdin fs =
     (let fs2 = (fs(params_path L file_path fit_option \<mapsto>
                      Csv [map fst params, map (\<lambda>p. float_repr L (snd p)) params]))
                  (predictions_path L file_path fit_option \<mapsto>
                      Csv (prediction_columns # map (csv_record L) data))
      in case render_plot L data fit_option of
           None \<Rightarrow> (fs2, Some (LibraryError ''savefig''))
         | Some png \<Rightarrow> (fs2(plot_path L file_path fit_option \<mapsto> png), None))"
  using assms
  by (simp add: main_def save_fit_params_def save_predictions_def plot_data_def Let_def
      params_path_def predictions_path_def plot_path_def split: option.splits)

subsection \<open>The sample run, evaluated\<close>

lemma sample_valid_rows:
  "filter (is_valid_row sample_library) sample_table =
     [sample_table ! 0, sample_table ! 2, sample_table ! 4]"
  by (simp add: sample_table_def sample_library_def is_valid_row_def has_missing_def)

lemma sample_read:
  "read_data sample_library sample_fs ''data/temps.xlsx'' = Inr sample_data"
  by (simp add: read_data_def sample_fs_def sample_library_def sample_table_def dropna_def
      sample_data_def)

lemma sample_x_num: "x_num_of sample_library sample_data = [0, 1, 2]"
  by (simp add: x_num_of_def sample_library_def sample_data_def)

lemma sample_fit_linear:
  "fit_data sample_library sample_data ''linear'' = Inr (sample_fitted, [(''a'', 7 / 2), (''b'', 19 / 2)])"
  by (simp add: fit_data_def sample_library_def sample_data_def sample_fitted_def polyval_def
      celsius_to_fahrenheit_def)

lemma sample_input:
  "get_user_input sample_stdin =
     (Inr (''data/temps.xlsx'', ''linear''),
      [PromptPath, PromptOption, InvalidOption ''cubic'', PromptOption])"
  by code_simp

text \<open>
  The line \<open>3.5 x + 9.5\<close> is the least-squares line of the sample: the squared distance
  of any other line exceeds its own, 3/2, by a sum of squares.
\<close>

lemma sample_least_squares: "least_squares_fit 1 [0, 1, 2] [10, 12, 17] [7 / 2, 19 / 2]"
proof -
  have best: "sum_squared_residuals [7 / 2, 19 / 2] [0, 1, 2] [10, 12, 17] = 3 / 2"
    by (simp add: sum_squared_residuals_def polyval_def power2_eq_square)
  have "3 / 2 \<le> sum_squared_residuals q [0, 1, 2] [10, 12, 17]"
    if "length q = Suc (Suc 0)" for q
  proof -
    from that obtain a b where q: "q = [a, b]"
      using length_2 by blast
    have "sum_squared_residuals [a, b] [0, 1, 2] [10, 12, 17] =
        3 / 2 + ((b - 19 / 2)\<^sup>2 + (a + b - 13)\<^sup>2 + (2 * a + b - 33 / 2)\<^sup>2)"
      by (simp add: sum_squared_residuals_def polyval_def power2_eq_square algebra_simps)
    then show ?thesis
      by (simp add: q)
  qed
  then show ?thesis
    by (simp add: least_squares_fit_def best)
qed

lemma sample_main:
  "main sample_library sample_stdin sample_fs =
     (sample_fs
        (''data/linear_fit_parameters.csv'' \<mapsto> Csv [[''a'', ''b''], [''3.5'', ''9.5'']],
         ''data/linear_predictions.csv'' \<mapsto>
           Csv [prediction_columns,
                [''1970-01-01'', ''10.0'', ''50.0'', ''9.5'', ''49.1''],
                [''1970-01-02'', ''12.0'', ''53.6'', ''13.0'', ''55.4''],
                [''1970-01-03'', ''17.0'', ''62.6'', ''16.5'', ''61.7'']],
         ''data/linear_fit.png'' \<mapsto> Binary ''image''),
      None)"
proof -
  have gui: "fst (get_user_input sample_stdin) = Inr (''data/temps.xlsx'', ''linear'')"
    by (simp add: sample_input)
  show ?thesis
    unfolding main_run [OF gui sample_read sample_fit_linear]
    by (simp add: sample_library_def params_path_def predictions_path_def plot_path_def
        sample_fitted_def csv_record_def sample_repr_def)
qed

section \<open>The claims\<close>

subsection \<open>Regression Fitter: the fit and its predictions\<close>

text \<open>
  Claim C1. For every cleaned table and either fit mode: \<^verbatim>\<open>fit_data\<close> hands
  \<^verbatim>\<open>np.polyfit\<close> the numeric day counts of the time stamps as abscissae, the Celsius column
  as ordinates, and the degree 1 for \<^verbatim>\<open>linear\<close>, 2 for \<^verbatim>\<open>quadratic\<close>. When the fit
  returns its \<open>degree + 1\<close> coefficients, \<^verbatim>\<open>fit_data\<close> returns; the parameter set carries
  the labels \<open>a, b\<close> (linear) or \<open>a, b, c\<close> (quadratic) on the coefficients in the order the fit
  gave them; the Celsius prediction of each row is the polynomial with these coefficients,
  the highest power first, at the day count of that row. If the coefficients are a
  least-squares fit, no polynomial of that degree is closer to the Celsius column than the
  predictions are.
\<close>

theorem fit_data_polynomial_fit:
  assumes mode: "fit_option = ''linear'' \<or> fit_option = ''quadratic''"
    and fit: "polyfit L (x_num_of L data) (map temperature_c data) (fit_degree fit_option) =
                Some coeffs"
    and len: "length coeffs = fit_degree fit_option + 1"
  shows "\<exists>data'.
           fit_data L data fit_option = Inr (data', zip (fit_labels fit_option) coeffs) \<and>
           map fst (zip (fit_labels fit_option) coeffs) = fit_labels fit_option \<and>
           map snd (zip (fit_labels fit_option) coeffs) = coeffs \<and>
           length data' = length data \<and>
           (\<forall>i < length data.
              prediction_c (data' ! i) = polyval coeffs (date2num L (time_stamp (data ! i)))) \<and>
           (fit_option = ''linear'' \<longrightarrow>
              fit_degree fit_option = 1 \<and> fit_labels fit_option = [''a'', ''b''] \<and>
              (\<exists>a b. coeffs = [a, b] \<and> (\<forall>x. polyval coeffs x = a * x + b))) \<and>
           (fit_option = ''quadratic'' \<longrightarrow>
              fit_degree fit_option = 2 \<and> fit_labels fit_option = [''a'', ''b'', ''c''] \<and>
              (\<exists>a b c. coeffs = [a, b, c] \<and>
                 (\<forall>x. polyval coeffs x = a * x\<^sup>2 + b * x + c))) \<and>
           (least_squares_fit (fit_degree fit_option) (x_num_of L data)
                (map temperature_c data) coeffs \<longrightarrow>
              (\<forall>q. length q = fit_degree fit_option + 1 \<longrightarrow>
                 table_residuals data' \<le>
                   sum_squared_residuals q (x_num_of L data) (map temperature_c data)))"
proof -
  define pc where "pc = map (polyval coeffs) (x_num_of L data)"
  define data' where "data' = add_predictions data pc (map celsius_to_fahrenheit pc)"
  have run: "fit_data L data fit_option = Inr (data', zip (fit_labels fit_option) coeffs)"
    by (simp add: fit_data_supported [OF mode] fit len data'_def pc_def)
  have lab: "length (fit_labels fit_option) = length coeffs"
    using len by (simp add: fit_labels_def fit_degree_def)
  have n: "length data' = length data"
    by (simp add: data'_def pc_def x_num_of_def add_predictions_length)
  have "map prediction_c data' = pc"
    by (simp add: data'_def pc_def x_num_of_def add_predictions_c)
  then have row: "prediction_c (data' ! i) = polyval coeffs (date2num L (time_stamp (data ! i)))"
    if "i < length data" for i
    using that n by (metis (no_types, lifting) length_map nth_map pc_def x_num_of_def)
  have lin: "\<exists>a b. coeffs = [a, b] \<and> (\<forall>x. polyval coeffs x = a * x + b)"
    if "fit_option = ''linear''"
  proof -
    from that len have "length coeffs = Suc (Suc 0)" by (simp add: fit_degree_def)
    then obtain a b where "coeffs = [a, b]" using length_2 by blast
    then show ?thesis by (simp add: polyval_linear)
  qed
  have quad: "\<exists>a b c. coeffs = [a, b, c] \<and> (\<forall>x. polyval coeffs x = a * x\<^sup>2 + b * x + c)"
    if "fit_option = ''quadratic''"
  proof -
    from that len have "length coeffs = Suc (Suc (Suc 0))" by (simp add: fit_degree_def)
    then obtain a b c where "coeffs = [a, b, c]" using length_3 by blast
    then show ?thesis by (simp add: polyval_quadratic)
  qed
  have res: "table_residuals data' =
      sum_squared_residuals coeffs (x_num_of L data) (map temperature_c data)"
    unfolding data'_def pc_def by (rule table_residuals_fit)
  have ls: "table_residuals data' \<le>
      sum_squared_residuals q (x_num_of L data) (map temperature_c data)"
    if "least_squares_fit (fit_degree fit_option) (x_num_of L data) (map temperature_c data) coeffs"
      and "length q = fit_degree fit_option + 1" for q
    using that by (simp add: res least_squares_fit_def)
  show ?thesis
    using run lab n row lin quad ls
    by (intro exI [of _ data']) (simp add: fit_degree_def fit_labels_def)
qed

theorem fit_data_polynomial_fit_witness:
  "fit_data sample_library sample_data ''linear'' = Inr (sample_fitted, [(''a'', 7 / 2), (''b'', 19 / 2)]) \<and>
   polyfit sample_library (x_num_of sample_library sample_data) (map temperature_c sample_data)
     (fit_degree ''linear'') = Some [7 / 2, 19 / 2] \<and>
   map prediction_c sample_fitted = map (polyval [7 / 2, 19 / 2]) [0, 1, 2] \<and>
   polyval [7 / 2, 19 / 2] 1 = 7 / 2 * 1 + 19 / 2 \<and>
   least_squares_fit 1 [0, 1, 2] [10, 12, 17] [7 / 2, 19 / 2] \<and>
   table_residuals sample_fitted \<le> sum_squared_residuals [3, 9] [0, 1, 2] [10, 12, 17]"
proof -
  have mode: "''linear'' = ''linear'' \<or> ''linear'' = ''quadratic''"
    by simp
  have fit: "polyfit sample_library (x_num_of sample_library sample_data)
      (map temperature_c sample_data) (fit_degree ''linear'') = Some [7 / 2, 19 / 2]"
    by (simp add: sample_x_num) (simp add: sample_library_def sample_data_def fit_degree_def)
  have len: "length [7 / 2, 19 / 2 :: real] = fit_degree ''linear'' + 1"
    by (simp add: fit_degree_def)
  have y: "map temperature_c sample_data = [10, 12, 17]"
    by (simp add: sample_data_def)
  have d: "fit_degree ''linear'' = 1"
    by (simp add: fit_degree_def)
  from fit_data_polynomial_fit [OF mode fit len] obtain data' where
    run: "fit_data sample_library sample_data ''linear'' =
            Inr (data', zip (fit_labels ''linear'') [7 / 2, 19 / 2])"
    and ls: "least_squares_fit (fit_degree ''linear'') (x_num_of sample_library sample_data)
               (map temperature_c sample_data) [7 / 2, 19 / 2] \<longrightarrow>
             (\<forall>q. length q = fit_degree ''linear'' + 1 \<longrightarrow>
                table_residuals data' \<le>
                  sum_squared_residuals q (x_num_of sample_library sample_data)
                    (map temperature_c sample_data))"
    by blast
  from run have e: "data' = sample_fitted"
    by (simp add: sample_fit_linear)
  from ls sample_least_squares
  have "table_residuals sample_fitted \<le> sum_squared_residuals [3, 9] [0, 1, 2] [10, 12, 17]"
    by (simp add: e d y sample_x_num)
  moreover have "map prediction_c sample_fitted = map (polyval [7 / 2, 19 / 2]) [0, 1, 2]"
    by (simp add: sample_fitted_def polyval_def)
  ultimately show ?thesis
    using run e fit sample_least_squares
    by (simp add: fit_labels_def polyval_def)
qed

subsection \<open>Data Loader: the rows dropped and the rows kept\<close>

text \<open>
  Claim C2. For every table read from the workbook: when \<^verbatim>\<open>read_data\<close> returns, its rows
  are, in the order of the file, the rows that have no missing value in any of the three
  columns and whose Celsius cell is coercible to a number, each with its time stamp parsed
  and its Celsius cell as a float; every other row is gone. It returns whenever the time
  stamps and Celsius cells of these rows convert. In particular, of a table in which two
  rows have a Celsius cell that is missing or not coercible (one missing and one the text
  \<^verbatim>\<open>N/A\<close>, say), and every other row is valid, exactly these two rows are dropped.
\<close>

theorem read_data_cleaning:
  assumes "fs file_path = Some f" and "parse_excel L f = Some table"
  shows "(\<forall>data. read_data L fs file_path = Inr data \<longrightarrow>
            list_all2 (typed_as L) (filter (is_valid_row L) table) data) \<and>
         ((\<forall>r \<in> set (filter (is_valid_row L) table).
              to_datetime L (raw_time_stamp r) \<noteq> None \<and>
              astype_float L (raw_temperature_c r) \<noteq> None) \<longrightarrow>
            (\<exists>data. read_data L fs file_path = Inr data)) \<and>
         (\<forall>pre m mid n post.
            table = pre @ m # mid @ n # post \<and>
            (\<forall>r \<in> set (pre @ mid @ post). is_valid_row L r) \<and>
            (raw_temperature_c m = NaN \<or> to_numeric L (raw_temperature_c m) = None) \<and>
            (raw_temperature_c n = NaN \<or> to_numeric L (raw_temperature_c n) = None) \<longrightarrow>
            filter (is_valid_row L) table = pre @ mid @ post)"
proof (intro conjI allI impI)
  note eq = read_data_eq [of fs file_path f L table, OF assms]
  fix data
  assume "read_data L fs file_path = Inr data"
  then show "list_all2 (typed_as L) (filter (is_valid_row L) table) data"
    unfolding eq typed_as_def
    by (auto simp: Let_def convert_column_Some split: option.splits intro!: typed_rows_all2)
next
  assume "\<forall>r \<in> set (filter (is_valid_row L) table).
            to_datetime L (raw_time_stamp r) \<noteq> None \<and>
            astype_float L (raw_temperature_c r) \<noteq> None"
  then show "\<exists>data. read_data L fs file_path = Inr data"
    unfolding read_data_eq [of fs file_path f L table, OF assms]
    by (auto simp: Let_def convert_column_None split: option.splits)
next
  fix pre m mid n post
  assume a: "table = pre @ m # mid @ n # post \<and>
            (\<forall>r \<in> set (pre @ mid @ post). is_valid_row L r) \<and>
            (raw_temperature_c m = NaN \<or> to_numeric L (raw_temperature_c m) = None) \<and>
            (raw_temperature_c n = NaN \<or> to_numeric L (raw_temperature_c n) = None)"
  then have "\<not> is_valid_row L m" "\<not> is_valid_row L n"
    by (auto simp: is_valid_row_def has_missing_def)
  with a show "filter (is_valid_row L) table = pre @ mid @ post"
    by (auto simp: filter_id_conv)
qed

theorem read_data_cleaning_witness:
  "sample_fs ''data/temps.xlsx'' = Some (Binary ''workbook'') \<and>
   parse_excel sample_library (Binary ''workbook'') = Some sample_table \<and>
   read_data sample_library sample_fs ''data/temps.xlsx'' = Inr sample_data \<and>
   raw_temperature_c (sample_table ! 1) = NaN \<and>
   raw_temperature_c (sample_table ! 3) = Text ''N/A'' \<and>
   to_numeric sample_library (Text ''N/A'') = None \<and>
   filter (is_valid_row sample_library) sample_table =
     [sample_table ! 0, sample_table ! 2, sample_table ! 4] \<and>
   list_all2 (typed_as sample_library) [sample_table ! 0, sample_table ! 2, sample_table ! 4]
     sample_data"
proof -
  have f: "sample_fs ''data/temps.xlsx'' = Some (Binary ''workbook'')"
    by (simp add: sample_fs_def)
  have p: "parse_excel sample_library (Binary ''workbook'') = Some sample_table"
    by (simp add: sample_library_def)
  have c: "raw_temperature_c (sample_table ! 1) = NaN"
    "raw_temperature_c (sample_table ! 3) = Text ''N/A''"
    "to_numeric sample_library (Text ''N/A'') = None"
    by (simp_all add: sample_table_def sample_library_def)
  from read_data_cleaning
    [of sample_fs "''data/temps.xlsx''" "Binary ''workbook''" sample_library sample_table, OF f p]
  have "list_all2 (typed_as sample_library)
      (filter (is_valid_row sample_library) sample_table) sample_data"
    using sample_read by blast
  with f p c show ?thesis
    by (simp add: sample_read sample_valid_rows)
qed

subsection \<open>Regression Fitter: the Fahrenheit prediction\<close>

text \<open>
  Claim C3. In every row of the table that \<^verbatim>\<open>fit_data\<close> returns, the Fahrenheit prediction
  is the Celsius prediction times 9/5 plus 32 (over the reals, that is, up to the rounding
  of the floats).
\<close>

theorem fit_data_fahrenheit:
  assumes "fit_data L data fit_option = Inr (data', params)"
  shows "length data' = length data \<and>
         (\<forall>r \<in> set data'. prediction_f r = prediction_c r * 9 / 5 + 32)"
proof -
  from fit_data_Inr [OF assms] obtain coeffs where
    d: "data' = add_predictions data (map (polyval coeffs) (x_num_of L data))
                  (map celsius_to_fahrenheit (map (polyval coeffs) (x_num_of L data)))"
    by blast
  define pc where "pc = map (polyval coeffs) (x_num_of L data)"
  have l: "length pc = length data"
    by (simp add: pc_def x_num_of_def)
  have c: "map prediction_c data' = pc"
    and f: "map prediction_f data' = map celsius_to_fahrenheit pc"
    and n: "length data' = length data"
    using l
    by (simp_all add: d pc_def [symmetric] add_predictions_c add_predictions_f
        add_predictions_length)
  have "prediction_f r = prediction_c r * 9 / 5 + 32" if "r \<in> set data'" for r
  proof -
    from that obtain i where i: "i < length data'" "data' ! i = r"
      by (auto simp: in_set_conv_nth)
    have "prediction_f r = map prediction_f data' ! i"
      using i by simp
    also have "\<dots> = celsius_to_fahrenheit (map prediction_c data' ! i)"
      using i n l by (simp add: f c)
    also have "\<dots> = prediction_c r * 9 / 5 + 32"
      using i by (simp add: celsius_to_fahrenheit_def)
    finally show ?thesis .
  qed
  with n show ?thesis by blast
qed

theorem fit_data_fahrenheit_witness:
  "fit_data sample_library sample_data ''linear'' = Inr (sample_fitted, [(''a'', 7 / 2), (''b'', 19 / 2)]) \<and>
   list_all (\<lambda>r. prediction_f r = prediction_c r * 9 / 5 + 32) sample_fitted \<and>
   map prediction_f sample_fitted = [491 / 10, 277 / 5, 617 / 10]"
  using fit_data_fahrenheit [OF sample_fit_linear]
  by (simp add: sample_fit_linear list_all_iff) (simp add: sample_fitted_def)

subsection \<open>Input Collector\<close>

text \<open>
  Claim C4. For every sequence of entries after the path: the collector turns down, with a
  message and a new prompt, every entry that does not match \<^verbatim>\<open>linear\<close> or
  \<^verbatim>\<open>quadratic\<close> case-insensitively, and returns at the first entry that does, with the
  lowered entry as the mode; so a returned mode is \<^verbatim>\<open>linear\<close> or \<^verbatim>\<open>quadratic\<close>, and
  it is the lowering of an entry that was accepted after only rejected ones. When no entry
  matches, the input runs out and the collector ends in \<^verbatim>\<open>EOFError\<close> without returning
  a mode. Matching is \<open>valid_option\<close>, letter by letter up to case, which does not
  mention the program's lowering: the program's test, lowering the entry and looking it up
  among the two words, holds of exactly the entries that match. \<^verbatim>\<open>Linear\<close>,
  \<^verbatim>\<open>LINEAR\<close>, \<^verbatim>\<open>QUADRATIC\<close> and \<^verbatim>\<open>quaDRatic\<close> match and are lowered; \<^verbatim>\<open>cubic\<close>
  and \<^verbatim>\<open>linear\<close> followed by a blank do not.
\<close>

theorem get_user_input_fit_mode:
  "((\<forall>t \<in> set pre. \<not> valid_option t) \<and> valid_option s \<longrightarrow>
      get_user_input (file_path # pre @ s # rest) =
        (Inr (file_path, lower s), PromptPath # rejected_events pre @ [PromptOption]) \<and>
      (lower s = ''linear'' \<or> lower s = ''quadratic'')) \<and>
   ((\<forall>t \<in> set ss. \<not> valid_option t) \<longrightarrow>
      get_user_input (file_path # ss) =
        (Inl EOFError, PromptPath # rejected_events ss @ [PromptOption])) \<and>
   (fst (get_user_input stdin) = Inr (p, m) \<longrightarrow>
      (m = ''linear'' \<or> m = ''quadratic'') \<and>
      (\<exists>pre' s' rest'. stdin = p # pre' @ s' # rest' \<and>
         (\<forall>t \<in> set pre'. \<not> valid_option t) \<and> valid_option s' \<and> m = lower s')) \<and>
   valid_option t = (lower t \<in> set [''linear'', ''quadratic'']) \<and>
   valid_option ''Linear'' \<and> lower ''Linear'' = ''linear'' \<and>
   valid_option ''LINEAR'' \<and> lower ''LINEAR'' = ''linear'' \<and>
   valid_option ''QUADRATIC'' \<and> lower ''QUADRATIC'' = ''quadratic'' \<and>
   valid_option ''quaDRatic'' \<and> lower ''quaDRatic'' = ''quadratic'' \<and>
   \<not> valid_option ''cubic'' \<and> \<not> valid_option ''linear ''"
proof (intro conjI impI)
  assume a: "(\<forall>t \<in> set pre. \<not> valid_option t) \<and> valid_option s"
  then show "get_user_input (file_path # pre @ s # rest) =
        (Inr (file_path, lower s), PromptPath # rejected_events pre @ [PromptOption])"
    by (simp add: get_user_input_def fit_option_loop_accept)
  from a show "lower s = ''linear'' \<or> lower s = ''quadratic''"
    by (simp add: valid_option_iff)
next
  assume "\<forall>t \<in> set ss. \<not> valid_option t"
  then show "get_user_input (file_path # ss) =
        (Inl EOFError, PromptPath # rejected_events ss @ [PromptOption])"
    by (simp add: get_user_input_def fit_option_loop_reject)
next
  assume a: "fst (get_user_input stdin) = Inr (p, m)"
  then show "m = ''linear'' \<or> m = ''quadratic''"
    by (rule get_user_input_mode)
  from a show "\<exists>pre' s' rest'. stdin = p # pre' @ s' # rest' \<and>
         (\<forall>t \<in> set pre'. \<not> valid_option t) \<and> valid_option s' \<and> m = lower s'"
    by (rule get_user_input_Inr)
next
  show "valid_option t = (lower t \<in> set [''linear'', ''quadratic''])"
    by (simp add: valid_option_iff)
  show "valid_option ''Linear''" by code_simp
  show "lower ''Linear'' = ''linear''" by code_simp
  show "valid_option ''LINEAR''" by code_simp
  show "lower ''LINEAR'' = ''linear''" by code_simp
  show "valid_option ''QUADRATIC''" by code_simp
  show "lower ''QUADRATIC'' = ''quadratic''" by code_simp
  show "valid_option ''quaDRatic''" by code_simp
  show "lower ''quaDRatic'' = ''quadratic''" by code_simp
  show "\<not> valid_option ''cubic''" by code_simp
  show "\<not> valid_option ''linear ''" by code_simp
qed

theorem get_user_input_fit_mode_witness:
  "get_user_input [''data/temps.xlsx'', ''cubic'', ''Linear''] =
     (Inr (''data/temps.xlsx'', ''linear''),
      [PromptPath, PromptOption, InvalidOption ''cubic'', PromptOption]) \<and>
   valid_option ''Linear'' \<and> \<not> valid_option ''cubic''"
proof -
  have r: "\<not> valid_option ''cubic''" by code_simp
  have a: "valid_option ''Linear''" by code_simp
  have l: "lower ''Linear'' = ''linear''" by code_simp
  have c: "lower ''cubic'' = ''cubic''" by code_simp
  from get_user_input_fit_mode [of "[''cubic'']" "''Linear''" "''data/temps.xlsx''" "[]"] r a
  have "get_user_input (''data/temps.xlsx'' # [''cubic''] @ ''Linear'' # []) =
        (Inr (''data/temps.xlsx'', lower ''Linear''),
         PromptPath # rejected_events [''cubic''] @ [PromptOption])"
    by simp
  with r a show ?thesis
    by (simp add: l c rejected_events_def)
qed

subsection \<open>Regression Fitter: an unsupported mode\<close>

text \<open>
  Claim C5. For every fit mode other than \<^verbatim>\<open>linear\<close> and \<^verbatim>\<open>quadratic\<close>,
  \<^verbatim>\<open>fit_data\<close> raises \<^verbatim>\<open>NotImplementedError\<close>: it neither returns nor falls back to
  a degree. A mode returned by the collector is one of the two, and with it \<^verbatim>\<open>fit_data\<close>
  never raises \<^verbatim>\<open>NotImplementedError\<close>.
\<close>

theorem fit_data_unsupported_mode:
  "(fit_option \<noteq> ''linear'' \<and> fit_option \<noteq> ''quadratic'' \<longrightarrow>
      fit_data L data fit_option = Inl NotImplementedError) \<and>
   (fst (get_user_input stdin) = Inr (file_path, fit_option) \<longrightarrow>
      (fit_option = ''linear'' \<or> fit_option = ''quadratic'') \<and>
      fit_data L data fit_option \<noteq> Inl NotImplementedError)"
proof (intro conjI impI)
  assume "fit_option \<noteq> ''linear'' \<and> fit_option \<noteq> ''quadratic''"
  then show "fit_data L data fit_option = Inl NotImplementedError"
    by (simp add: fit_data_unsupported)
next
  assume "fst (get_user_input stdin) = Inr (file_path, fit_option)"
  then show m: "fit_option = ''linear'' \<or> fit_option = ''quadratic''"
    by (rule get_user_input_mode)
  show "fit_data L data fit_option \<noteq> Inl NotImplementedError"
    unfolding fit_data_supported [OF m] by (simp split: option.splits)
qed

theorem fit_data_unsupported_mode_witness:
  "fit_data sample_library sample_data ''cubic'' = Inl NotImplementedError \<and>
   fst (get_user_input sample_stdin) = Inr (''data/temps.xlsx'', ''linear'') \<and>
   fit_data sample_library sample_data ''linear'' \<noteq> Inl NotImplementedError"
proof -
  have gui: "fst (get_user_input sample_stdin) = Inr (''data/temps.xlsx'', ''linear'')"
    by (simp add: sample_input)
  from fit_data_unsupported_mode [of "''cubic''" sample_library sample_data]
  have 1: "fit_data sample_library sample_data ''cubic'' = Inl NotImplementedError"
    by simp
  from fit_data_unsupported_mode
    [of "''linear''" sample_library sample_data sample_stdin "''data/temps.xlsx''"] gui
  have 2: "fit_data sample_library sample_data ''linear'' \<noteq> Inl NotImplementedError"
    by blast
  from 1 2 gui show ?thesis by blast
qed

subsection \<open>Persistence Writer: the two files\<close>

text \<open>
  Claim C6. For every parameter set, table, mode \<open>m\<close> and folder, whatever the file system
  held before: after \<^verbatim>\<open>save_fit_params\<close> the file \<^verbatim>\<open><m>_fit_parameters.csv\<close> in the
  folder holds the header record of the labels and one record of the printed values; after
  \<^verbatim>\<open>save_predictions\<close> the file \<^verbatim>\<open><m>_predictions.csv\<close> in the folder holds the header
  \<^verbatim>\<open>Time-Stamp, Temperature/C, Temperature/F, Prediction/C, Prediction/F\<close> (with the degree
  sign before \<open>C\<close> and \<open>F\<close>) and, for each row of the table in its order, the record of
  its time stamp, its Celsius value, its Fahrenheit cell and its two predictions. In a run
  that gets as far as the fit, the folder is the directory of the input file; the parameter
  file holds the labels \<open>a, b\<close> or \<open>a, b, c\<close> over the coefficients of the fit; the
  prediction file holds one record per retained observation, in their order, with the
  observation's three values followed by the fitted polynomial at its day count and the
  Fahrenheit value of that; both files are there when the run ends, provided the three paths
  the run writes are different paths.
\<close>

theorem persistence_files:
  "save_fit_params L params fit_option folder fs
     (path_join L folder (fit_option @ ''_fit_parameters.csv'')) =
     Some (Csv [map fst params, map (\<lambda>p. float_repr L (snd p)) params]) \<and>
   save_predictions L data fit_option folder fs
     (path_join L folder (fit_option @ ''_predictions.csv'')) =
     Some (Csv
       ([''Time-Stamp'', ''Temperature/'' @ [CHR 0xB0] @ ''C'',
         ''Temperature/'' @ [CHR 0xB0] @ ''F'', ''Prediction/'' @ [CHR 0xB0] @ ''C'',
         ''Prediction/'' @ [CHR 0xB0] @ ''F''] #
        map (\<lambda>r. [timestamp_str L (time_stamp r), float_repr L (temperature_c r),
                  cell_str L (temperature_f r), float_repr L (prediction_c r),
                  float_repr L (prediction_f r)])
          data)) \<and>
   (fst (get_user_input stdin) = Inr (file_path, m) \<and>
    read_data L fs file_path = Inr data0 \<and>
    fit_data L data0 m = Inr (data1, params1) \<and>
    distinct [params_path L file_path m, predictions_path L file_path m,
      plot_path L file_path m] \<longrightarrow>
      (\<exists>coeffs.
         polyfit L (x_num_of L data0) (map temperature_c data0) (fit_degree m) = Some coeffs \<and>
         fst (main L stdin fs)
           (path_join L (dirname L file_path) (m @ ''_fit_parameters.csv'')) =
           Some (Csv [if m = ''linear'' then [''a'', ''b''] else [''a'', ''b'', ''c''],
                      map (float_repr L) coeffs]) \<and>
         length coeffs = (if m = ''linear'' then 2 else 3) \<and>
         fst (main L stdin fs)
           (path_join L (dirname L file_path) (m @ ''_predictions.csv'')) =
           Some (Csv
             ([''Time-Stamp'', ''Temperature/'' @ [CHR 0xB0] @ ''C'',
               ''Temperature/'' @ [CHR 0xB0] @ ''F'', ''Prediction/'' @ [CHR 0xB0] @ ''C'',
               ''Prediction/'' @ [CHR 0xB0] @ ''F''] #
              map (\<lambda>r. [timestamp_str L (time_stamp r), float_repr L (temperature_c r),
                        cell_str L (temperature_f r),
                        float_repr L (polyval coeffs (date2num L (time_stamp r))),
                        float_repr L (polyval coeffs (date2num L (time_stamp r)) * 9 / 5 + 32)])
                data0))))"
proof (intro conjI impI)
  show "save_fit_params L params fit_option folder fs
     (path_join L folder (fit_option @ ''_fit_parameters.csv'')) =
     Some (Csv [map fst params, map (\<lambda>p. float_repr L (snd p)) params])"
    by (simp add: save_fit_params_def)
  show "save_predictions L data fit_option folder fs
     (path_join L folder (fit_option @ ''_predictions.csv'')) =
     Some (Csv
       ([''Time-Stamp'', ''Temperature/'' @ [CHR 0xB0] @ ''C'',
         ''Temperature/'' @ [CHR 0xB0] @ ''F'', ''Prediction/'' @ [CHR 0xB0] @ ''C'',
         ''Prediction/'' @ [CHR 0xB0] @ ''F''] #
        map (\<lambda>r. [timestamp_str L (time_stamp r), float_repr L (temperature_c r),
                  cell_str L (temperature_f r), float_repr L (prediction_c r),
                  float_repr L (prediction_f r)])
          data))"
    by (simp add: save_predictions_def prediction_columns_def csv_record_def)
next
  assume a: "fst (get_user_input stdin) = Inr (file_path, m) \<and>
    read_data L fs file_path = Inr data0 \<and>
    fit_data L data0 m = Inr (data1, params1) \<and>
    distinct [params_path L file_path m, predictions_path L file_path m,
      plot_path L file_path m]"
  then have gui: "fst (get_user_input stdin) = Inr (file_path, m)"
    and rd: "read_data L fs file_path = Inr data0"
    and fd: "fit_data L data0 m = Inr (data1, params1)"
    and paths: "distinct [params_path L file_path m, predictions_path L file_path m,
      plot_path L file_path m]"
    by blast+
  from fit_data_rows [OF fd] obtain coeffs where
    fit: "polyfit L (x_num_of L data0) (map temperature_c data0) (fit_degree m) = Some coeffs"
    and len: "length coeffs = fit_degree m + 1"
    and p: "params1 = zip (fit_labels m) coeffs"
    and rows: "data1 =
      map (\<lambda>r. \<lparr>time_stamp = time_stamp r, temperature_c = temperature_c r,
                 temperature_f = temperature_f r,
                 prediction_c = polyval coeffs (date2num L (time_stamp r)),
                 prediction_f =
                   celsius_to_fahrenheit (polyval coeffs (date2num L (time_stamp r)))\<rparr>)
        data0"
    by blast
  define pp where "pp = params_path L file_path m"
  define qp where "qp = predictions_path L file_path m"
  define rp where "rp = plot_path L file_path m"
  define A where "A = Csv [map fst params1, map (\<lambda>p. float_repr L (snd p)) params1]"
  define B where "B = Csv (prediction_columns # map (csv_record L) data1)"
  have d: "pp \<noteq> qp" "pp \<noteq> rp" "qp \<noteq> rp"
    using paths by (simp_all add: pp_def qp_def rp_def)
  have run: "main L stdin fs =
     (case render_plot L data1 m of
        None \<Rightarrow> ((fs(pp \<mapsto> A))(qp \<mapsto> B), Some (LibraryError ''savefig''))
      | Some png \<Rightarrow> (((fs(pp \<mapsto> A))(qp \<mapsto> B))(rp \<mapsto> png), None))"
    unfolding main_run [OF gui rd fd] Let_def pp_def qp_def rp_def A_def B_def ..
  have 1: "fst (main L stdin fs) pp = Some A"
    using d by (simp add: run split: option.splits)
  have 2: "fst (main L stdin fs) qp = Some B"
    using d by (simp add: run split: option.splits)
  have lab: "length (fit_labels m) = length coeffs"
    using len by (simp add: fit_labels_def fit_degree_def)
  have A': "A = Csv [if m = ''linear'' then [''a'', ''b''] else [''a'', ''b'', ''c''],
      map (float_repr L) coeffs]"
  proof -
    have "map fst params1 = fit_labels m" and "map snd params1 = coeffs"
      using lab by (simp_all add: p)
    moreover have "map (\<lambda>p. float_repr L (snd p)) params1 = map (float_repr L) (map snd params1)"
      by simp
    ultimately show ?thesis
      by (simp add: A_def fit_labels_def)
  qed
  have B': "B = Csv
      ([''Time-Stamp'', ''Temperature/'' @ [CHR 0xB0] @ ''C'',
        ''Temperature/'' @ [CHR 0xB0] @ ''F'', ''Prediction/'' @ [CHR 0xB0] @ ''C'',
        ''Prediction/'' @ [CHR 0xB0] @ ''F''] #
       map (\<lambda>r. [timestamp_str L (time_stamp r), float_repr L (temperature_c r),
                 cell_str L (temperature_f r),
                 float_repr L (polyval coeffs (date2num L (time_stamp r))),
                 float_repr L (polyval coeffs (date2num L (time_stamp r)) * 9 / 5 + 32)])
         data0)"
    by (simp add: B_def rows prediction_columns_def csv_record_def celsius_to_fahrenheit_def
        comp_def)
  have n: "length coeffs = (if m = ''linear'' then 2 else 3)"
    using len by (simp add: fit_degree_def)
  from 1 2 fit n show "\<exists>coeffs.
         polyfit L (x_num_of L data0) (map temperature_c data0) (fit_degree m) = Some coeffs \<and>
         fst (main L stdin fs)
           (path_join L (dirname L file_path) (m @ ''_fit_parameters.csv'')) =
           Some (Csv [if m = ''linear'' then [''a'', ''b''] else [''a'', ''b'', ''c''],
                      map (float_repr L) coeffs]) \<and>
         length coeffs = (if m = ''linear'' then 2 else 3) \<and>
         fst (main L stdin fs)
           (path_join L (dirname L file_path) (m @ ''_predictions.csv'')) =
           Some (Csv
             ([''Time-Stamp'', ''Temperature/'' @ [CHR 0xB0] @ ''C'',
               ''Temperature/'' @ [CHR 0xB0] @ ''F'', ''Prediction/'' @ [CHR 0xB0] @ ''C'',
               ''Prediction/'' @ [CHR 0xB0] @ ''F''] #
              map (\<lambda>r. [timestamp_str L (time_stamp r), float_repr L (temperature_c r),
                        cell_str L (temperature_f r),
                        float_repr L (polyval coeffs (date2num L (time_stamp r))),
                        float_repr L (polyval coeffs (date2num L (time_stamp r)) * 9 / 5 + 32)])
                data0))"
    unfolding A' B' pp_def qp_def params_path_def predictions_path_def
    by (intro exI [of _ coeffs]) simp
qed

theorem persistence_files_witness:
  "fst (main sample_library sample_stdin sample_fs) ''data/linear_fit_parameters.csv'' =
     Some (Csv [[''a'', ''b''], [''3.5'', ''9.5'']]) \<and>
   fst (main sample_library sample_stdin sample_fs) ''data/linear_predictions.csv'' =
     Some (Csv [[''Time-Stamp'', ''Temperature/'' @ [CHR 0xB0] @ ''C'',
                 ''Temperature/'' @ [CHR 0xB0] @ ''F'', ''Prediction/'' @ [CHR 0xB0] @ ''C'',
                 ''Prediction/'' @ [CHR 0xB0] @ ''F''],
                [''1970-01-01'', ''10.0'', ''50.0'', ''9.5'', ''49.1''],
                [''1970-01-02'', ''12.0'', ''53.6'', ''13.0'', ''55.4''],
                [''1970-01-03'', ''17.0'', ''62.6'', ''16.5'', ''61.7'']])"
proof -
  have gui: "fst (get_user_input sample_stdin) = Inr (''data/temps.xlsx'', ''linear'')"
    by (simp add: sample_input)
  have paths: "distinct [params_path sample_library ''data/temps.xlsx'' ''linear'',
      predictions_path sample_library ''data/temps.xlsx'' ''linear'',
      plot_path sample_library ''data/temps.xlsx'' ''linear'']"
    by (simp add: params_path_def predictions_path_def plot_path_def sample_library_def)
  have j: "path_join sample_library (dirname sample_library ''data/temps.xlsx'') n =
      ''data/'' @ n" for n
    by (simp add: sample_library_def)
  have fit: "polyfit sample_library (x_num_of sample_library sample_data)
      (map temperature_c sample_data) (fit_degree ''linear'') = Some [7 / 2, 19 / 2]"
    by (simp add: sample_x_num) (simp add: sample_library_def sample_data_def fit_degree_def)
  from persistence_files
    [where L = sample_library and stdin = sample_stdin and file_path = "''data/temps.xlsx''"
      and m = "''linear''" and fs = sample_fs and ?data0.0 = sample_data
      and ?data1.0 = sample_fitted and ?params1.0 = "[(''a'', 7 / 2), (''b'', 19 / 2)]"]
    gui sample_read sample_fit_linear paths
  obtain coeffs where
    c: "polyfit sample_library (x_num_of sample_library sample_data)
      (map temperature_c sample_data) (fit_degree ''linear'') = Some coeffs"
    and 1: "fst (main sample_library sample_stdin sample_fs)
      (path_join sample_library (dirname sample_library ''data/temps.xlsx'')
        (''linear'' @ ''_fit_parameters.csv'')) =
      Some (Csv [if ''linear'' = ''linear'' then [''a'', ''b''] else [''a'', ''b'', ''c''],
        map (float_repr sample_library) coeffs])"
    and 2: "fst (main sample_library sample_stdin sample_fs)
      (path_join sample_library (dirname sample_library ''data/temps.xlsx'')
        (''linear'' @ ''_predictions.csv'')) =
      Some (Csv
        ([''Time-Stamp'', ''Temperature/'' @ [CHR 0xB0] @ ''C'',
          ''Temperature/'' @ [CHR 0xB0] @ ''F'', ''Prediction/'' @ [CHR 0xB0] @ ''C'',
          ''Prediction/'' @ [CHR 0xB0] @ ''F''] #
         map (\<lambda>r. [timestamp_str sample_library (time_stamp r),
                   float_repr sample_library (temperature_c r),
                   cell_str sample_library (temperature_f r),
                   float_repr sample_library
                     (polyval coeffs (date2num sample_library (time_stamp r))),
                   float_repr sample_library
                     (polyval coeffs (date2num sample_library (time_stamp r)) * 9 / 5 + 32)])
           sample_data))"
    by blast
  from c fit have e: "coeffs = [7 / 2, 19 / 2]"
    by simp
  from 1 2 show ?thesis
    unfolding e
    by (simp add: j) (simp add: sample_library_def sample_data_def sample_repr_def polyval_def)
qed

subsection \<open>The pipeline run twice\<close>

text \<open>
  Claim C8. For every input and file system: a second run on the same entries, started from
  the file system the first run left, ends as the first did and leaves the file system as
  the first did; so the parameter file and the prediction file of the second run are those
  of the first. The input file has to be the same for both runs, that is, not one of the
  files the run writes. (Every library routine is a function of its arguments here.)
\<close>

theorem main_idempotent:
  assumes "input_untouched L stdin"
  shows "main L stdin (fst (main L stdin fs)) = main L stdin fs \<and>
         (\<forall>file_path fit_option.
            fst (main L stdin (fst (main L stdin fs))) (params_path L file_path fit_option) =
              fst (main L stdin fs) (params_path L file_path fit_option) \<and>
            fst (main L stdin (fst (main L stdin fs))) (predictions_path L file_path fit_option) =
              fst (main L stdin fs) (predictions_path L file_path fit_option))"
proof -
  have "main L stdin (fst (main L stdin fs)) = main L stdin fs"
  proof (cases "fst (get_user_input stdin)")
    case (Inl e)
    then show ?thesis by (simp add: main_def)
  next
    case (Inr pm)
    obtain file_path fit_option where pm: "pm = (file_path, fit_option)"
      by (cases pm)
    note gui = Inr [unfolded pm]
    from assms gui have ne: "file_path \<noteq> params_path L file_path fit_option"
      "file_path \<noteq> predictions_path L file_path fit_option"
      "file_path \<noteq> plot_path L file_path fit_option"
      by (simp_all add: input_untouched_def)
    show ?thesis
    proof (cases "read_data L fs file_path")
      case (Inl e)
      then show ?thesis using gui by (simp add: main_def)
    next
      case rd: (Inr data0)
      show ?thesis
      proof (cases "fit_data L data0 fit_option")
        case (Inl e)
        then show ?thesis using gui rd by (simp add: main_def)
      next
        case (Inr dp)
        obtain data params where dp: "dp = (data, params)"
          by (cases dp)
        note fd = Inr [unfolded dp]
        note run = main_run [OF gui _ fd]
        have same: "fst (main L stdin fs) file_path = fs file_path"
          using ne by (simp add: run [OF rd] Let_def split: option.splits)
        have rd': "read_data L (fst (main L stdin fs)) file_path = Inr data0"
          using read_data_cong [of "fst (main L stdin fs)" file_path fs L] same rd by simp
        show ?thesis
          unfolding run [OF rd']
          unfolding run [OF rd]
          by (auto simp: Let_def fun_eq_iff split: option.splits)
      qed
    qed
  qed
  then show ?thesis by simp
qed

theorem main_idempotent_witness:
  "input_untouched sample_library sample_stdin \<and>
   snd (main sample_library sample_stdin sample_fs) = None \<and>
   main sample_library sample_stdin (fst (main sample_library sample_stdin sample_fs)) =
     main sample_library sample_stdin sample_fs"
proof -
  have u: "input_untouched sample_library sample_stdin"
    by (simp add: input_untouched_def sample_input params_path_def predictions_path_def
        plot_path_def sample_library_def)
  from main_idempotent [OF u, of sample_fs] u show ?thesis
    by (simp add: sample_main)
qed

subsection \<open>The parameter file read back\<close>

text \<open>
  Claim C9. For every fit parameter set: the file that \<^verbatim>\<open>save_fit_params\<close> writes, read
  back, gives the same labels with the same values in the same order, provided that parsing
  the printed form of each of its values gives that value back (which is what the shortest
  round-trip printing of floats ensures).
\<close>

theorem fit_params_round_trip:
  assumes "\<forall>p \<in> set params. parse_float (float_repr L (snd p)) = Some (snd p)"
  shows "\<exists>f. save_fit_params L params fit_option data_folder_path fs
               (path_join L data_folder_path (fit_option @ ''_fit_parameters.csv'')) = Some f \<and>
             read_fit_params parse_float f = Some params"
proof -
  have "map parse_float (map (\<lambda>p. float_repr L (snd p)) params) = map Some (map snd params)"
    using assms by simp
  then have "convert_column parse_float (map (\<lambda>p. float_repr L (snd p)) params) =
      Some (map snd params)"
    by (simp only: convert_column_Some)
  then show ?thesis
    by (simp add: save_fit_params_def read_fit_params_def zip_map_fst_snd)
qed

theorem fit_params_round_trip_witness:
  "save_fit_params sample_library [(''a'', 7 / 2), (''b'', 19 / 2)] ''linear'' ''data'' sample_fs
     ''data/linear_fit_parameters.csv'' = Some (Csv [[''a'', ''b''], [''3.5'', ''9.5'']]) \<and>
   read_fit_params sample_parse_float (Csv [[''a'', ''b''], [''3.5'', ''9.5'']]) =
     Some [(''a'', 7 / 2), (''b'', 19 / 2)]"
proof -
  have h: "\<forall>p \<in> set [(''a'', 7 / 2 :: real), (''b'', 19 / 2)].
      sample_parse_float (float_repr sample_library (snd p)) = Some (snd p)"
    by (simp add: sample_library_def sample_repr_def sample_parse_float_def)
  have w: "save_fit_params sample_library [(''a'', 7 / 2), (''b'', 19 / 2)] ''linear'' ''data'' sample_fs
     ''data/linear_fit_parameters.csv'' = Some (Csv [[''a'', ''b''], [''3.5'', ''9.5'']])"
    by (simp add: save_fit_params_def sample_library_def sample_repr_def)
  have j: "path_join sample_library ''data'' (''linear'' @ ''_fit_parameters.csv'') =
      ''data/linear_fit_parameters.csv''"
    by (simp add: sample_library_def)
  from fit_params_round_trip [OF h, of "''linear''" "''data''" sample_fs] w
  show ?thesis
    unfolding j by simp
qed

subsection \<open>Regression Fitter: what it leaves alone\<close>

text \<open>
  Claim C10. For every cleaned table and valid fit mode: the table that \<^verbatim>\<open>fit_data\<close>
  returns has the rows of the table it was given, as many and in the same order, with the
  time stamp, the Celsius and the Fahrenheit column unchanged; the two prediction columns
  are all it adds.
\<close>

theorem fit_data_frame:
  assumes "fit_data L data fit_option = Inr (data', params)"
  shows "length data' = length data \<and> map row.truncate data' = data \<and>
         map time_stamp data' = map time_stamp data \<and>
         map temperature_c data' = map temperature_c data \<and>
         map temperature_f data' = map temperature_f data"
proof -
  from fit_data_Inr [OF assms] obtain coeffs where
    d: "data' = add_predictions data (map (polyval coeffs) (x_num_of L data))
                  (map celsius_to_fahrenheit (map (polyval coeffs) (x_num_of L data)))"
    by blast
  have n: "length data' = length data" and t: "map row.truncate data' = data"
    by (simp_all add: d x_num_of_def add_predictions_length add_predictions_truncate)
  have "map time_stamp (map row.truncate data') = map time_stamp data'"
    "map temperature_c (map row.truncate data') = map temperature_c data'"
    "map temperature_f (map row.truncate data') = map temperature_f data'"
    by (simp_all add: row.truncate_def)
  with n t show ?thesis by simp
qed

theorem fit_data_frame_witness:
  "fit_data sample_library sample_data ''linear'' = Inr (sample_fitted, [(''a'', 7 / 2), (''b'', 19 / 2)]) \<and>
   length sample_fitted = length sample_data \<and>
   map row.truncate sample_fitted = sample_data"
  using fit_data_frame [OF sample_fit_linear] by (simp add: sample_fit_linear)

end
